theory Spec2Isabelle
  imports Main "HOL-Library.Sublist" "HOL-Library.Word"
begin

section \<open>Python strings\<close>

text \<open>
  A Python \<^verbatim>\<open>str\<close> is a sequence of Unicode code points, so it is modelled as a list of
  natural numbers, one per code point. \<open>py\<close> reads an ASCII literal of the source as
  such a list. A contiguous substring is \<^const>\<open>sublist\<close>.
\<close>

type_synonym pystr = "nat list"

definition py :: "string \<Rightarrow> pystr" where
  "py s = map of_char s"

text \<open>
  \<^verbatim>\<open>str.strip()\<close> without arguments removes the code points for which
  \<^verbatim>\<open>str.isspace()\<close> holds from both ends: the ASCII ones are 9 to 13, 28 to 31 and 32,
  the others are U+0085, U+00A0, U+1680, U+2000 to U+200A, U+2028, U+2029, U+202F,
  U+205F and U+3000.
\<close>

definition isspace :: "nat \<Rightarrow> bool" where
  "isspace c = ((9 \<le> c \<and> c \<le> 13) \<or> (28 \<le> c \<and> c \<le> 32) \<or> c = 0x85 \<or> c = 0xA0
     \<or> c = 0x1680 \<or> (0x2000 \<le> c \<and> c \<le> 0x200A) \<or> c = 0x2028 \<or> c = 0x2029
     \<or> c = 0x202F \<or> c = 0x205F \<or> c = 0x3000)"

definition lstrip :: "pystr \<Rightarrow> pystr" where
  "lstrip s = dropWhile isspace s"

definition rstrip :: "pystr \<Rightarrow> pystr" where
  "rstrip s = rev (dropWhile isspace (rev s))"

definition strip :: "pystr \<Rightarrow> pystr" where
  "strip s = rstrip (lstrip s)"

text \<open>
  \<^verbatim>\<open>s.replace(old, new)\<close> scans \<open>s\<close> from the left and replaces the occurrences of
  \<open>old\<close> that do not overlap an earlier replaced one. With an empty \<open>old\<close> Python puts
  \<open>new\<close> before every code point and at the end.
\<close>

function replace_from :: "pystr \<Rightarrow> pystr \<Rightarrow> pystr \<Rightarrow> pystr" where
  "replace_from old new [] = []"
| "replace_from old new (c # cs) =
     (if old \<noteq> [] \<and> prefix old (c # cs)
      then new @ replace_from old new (drop (length old) (c # cs))
      else c # replace_from old new cs)"
  by pat_completeness auto
termination
  by (relation "measure (\<lambda>(old, new, s). length s)") (auto simp: neq_Nil_conv)

definition replace :: "pystr \<Rightarrow> pystr \<Rightarrow> pystr \<Rightarrow> pystr" where
  "replace old new s =
     (if old = [] then new @ concat (map (\<lambda>c. c # new) s) else replace_from old new s)"

section \<open>The prompt builder\<close>

text \<open>
  \<^verbatim>\<open>create_review_prompt(code, filename)\<close> returns one f-string: the fixed text of
  lines 63 to 88 of \<^verbatim>\<open>main.py\<close> with \<^verbatim>\<open>{filename}\<close> and \<^verbatim>\<open>{code}\<close> replaced by the
  two arguments. The three constants below are the fixed text before the file name,
  between the file name and the code, and after the code. (Line 48 of the source
  writes the return annotation with \<^verbatim>\<open>=>\<close>; it is read here as the annotation arrow
  \<^verbatim>\<open>->\<close>, which has no meaning at run time.)
\<close>

definition prompt_head :: string where
  \<open>prompt_head =
     ''\<newline>'' @
     ''    You are an expert code reviewer named "CodeSage". Your task is to provide a detailed, constructive, and actionable review for the provided code.\<newline>'' @
     ''\<newline>'' @
     ''    **Context:**\<newline>'' @
     ''    - **File Name:** `''\<close>

definition prompt_instructions :: string where
  \<open>prompt_instructions =
     ''`\<newline>'' @
     ''\<newline>'' @
     ''    **Instructions:**\<newline>'' @
     ''    Analyze the following code based on these five criteria:\<newline>'' @
     ''    1.  **Readability**: Is the code clean, well-commented, and easy to understand? Is the naming convention clear?\<newline>'' @
     ''    2.  **Modularity_Structure**: Is the code well-organized into functions or classes? Is there good separation of concerns?\<newline>'' @
     ''    3.  **Potential_Bugs**: Are there any logical errors, unhandled edge cases, or common programming mistakes?\<newline>'' @
     ''    4.  **Best_Practices**: Does the code adhere to standard conventions and idiomatic principles for its language?\<newline>'' @
     ''    5.  **Security**: Are there any obvious security vulnerabilities (e.g., hardcoded secrets, injection risks, unsafe functions)?\<newline>'' @
     ''\<newline>'' @
     ''    **Output Format:**\<newline>'' @
     ''    Your entire response MUST be a single, minified JSON object. Do not include any markdown formatting (like ```json), explanations, or conversational text outside of the JSON structure.\<newline>'' @
     ''\<newline>'' @
     ''    The root object must have keys for each of the five criteria (use underscores, e.g., "Potential_Bugs"). For each criterion, the value should be an object containing:\<newline>'' @
     ''    - "rating": An integer rating from 1 (poor) to 10 (excellent).\<newline>'' @
     ''    - "comment": A concise string (2-3 sentences) with detailed feedback. If you find issues, reference line numbers where applicable.\<newline>'' @
     ''\<newline>'' @
     ''    **Code to Review:**\<newline>'' @
     ''    ```\<newline>'' @
     ''    ''\<close>

definition prompt_tail :: string where
  \<open>prompt_tail =
     ''\<newline>'' @
     ''    ```\<newline>'' @
     ''    ''\<close>

definition create_review_prompt :: "pystr \<Rightarrow> pystr \<Rightarrow> pystr" where
  "create_review_prompt code filename =
     py prompt_head @ filename @ py prompt_instructions @ code @ py prompt_tail"

section \<open>Decoding the upload\<close>

text \<open>
  The upload is the byte content of the file part and its file name.
  \<^verbatim>\<open>bytes.decode("utf-8")\<close> is the strict decoder: it refuses a stray continuation
  byte, an overlong form, an encoded surrogate and anything above U+10FFFF by raising
  \<^verbatim>\<open>UnicodeDecodeError\<close>, which is \<open>None\<close> here.
\<close>

type_synonym byte = "8 word"

record upload =
  filename :: pystr
  content :: "byte list"

definition cont :: "byte \<Rightarrow> bool" where
  "cont b = (0x80 \<le> b \<and> b \<le> 0xBF)"

definition low6 :: "byte \<Rightarrow> nat" where
  "low6 b = unat b mod 64"

fun utf8_decode :: "byte list \<Rightarrow> pystr option" where
  "utf8_decode [] = Some []"
| "utf8_decode (b # bs) =
     (if b < 0x80 then map_option (Cons (unat b)) (utf8_decode bs)
      else if 0xC2 \<le> b \<and> b \<le> 0xDF then
        (case bs of
           c1 # r \<Rightarrow>
             if cont c1
             then map_option (Cons (unat b mod 32 * 64 + low6 c1)) (utf8_decode r)
             else None
         | _ \<Rightarrow> None)
      else if 0xE0 \<le> b \<and> b \<le> 0xEF then
        (case bs of
           c1 # c2 # r \<Rightarrow>
             if cont c1 \<and> cont c2 \<and> (if b = 0xE0 then 0xA0 \<le> c1 else True)
                \<and> (if b = 0xED then c1 \<le> 0x9F else True)
             then map_option (Cons (unat b mod 16 * 4096 + low6 c1 * 64 + low6 c2))
                    (utf8_decode r)
             else None
         | _ \<Rightarrow> None)
      else if 0xF0 \<le> b \<and> b \<le> 0xF4 then
        (case bs of
           c1 # c2 # c3 # r \<Rightarrow>
             if cont c1 \<and> cont c2 \<and> cont c3 \<and> (if b = 0xF0 then 0x90 \<le> c1 else True)
                \<and> (if b = 0xF4 then c1 \<le> 0x8F else True)
             then map_option
                    (Cons (unat b mod 8 * 262144 + low6 c1 * 4096 + low6 c2 * 64 + low6 c3))
                    (utf8_decode r)
             else None
         | _ \<Rightarrow> None)
      else None)"

section \<open>JSON values and \<^verbatim>\<open>json.loads\<close>\<close>

text \<open>
  The values \<^verbatim>\<open>json.loads\<close> builds. An object is a Python \<^verbatim>\<open>dict\<close>: its keys are
  distinct and keep the order of their first insertion, so it is an association list
  updated by \<open>dict_set\<close>. A float is the value of \<^verbatim>\<open>float(lexeme)\<close>: \<open>Finite m e\<close>
  stands for the double nearest to \<open>m * 10 ^ e\<close> (the rounding itself is not
  modelled, only whether it overflows), and the three other values are the non-finite
  doubles. The interpreter's resource limits (recursion depth, digits of an integer
  literal, memory) are not modelled.
\<close>

datatype pyfloat = Finite int int | NaN | PosInf | NegInf

datatype json =
    JNull
  | JBool bool
  | JInt int
  | JFloat pyfloat
  | JStr pystr
  | JArr "json list"
  | JObj "(pystr \<times> json) list"

fun dict_set :: "pystr \<Rightarrow> json \<Rightarrow> (pystr \<times> json) list \<Rightarrow> (pystr \<times> json) list" where
  "dict_set k v [] = [(k, v)]"
| "dict_set k v ((k', v') # kvs) =
     (if k' = k then (k, v) # kvs else (k', v') # dict_set k v kvs)"

datatype exc =
    HTTPException nat pystr
  | JSONDecodeError
  | UnicodeDecodeError
  | UnicodeEncodeError
  | ValueError
  | OtherException pystr

subsection \<open>Strings\<close>

text \<open>
  The scanner of a string starts after the opening quote and returns the decoded
  string and the text after the closing quote. It is the default strict scanner: a
  raw code point below 0x20 is refused; the escapes are the eight one-letter ones
  and \<^verbatim>\<open>\uXXXX\<close>; a high surrogate escape followed by a low surrogate escape
  is joined into one code point, and any other surrogate escape is kept as it is.
\<close>

definition hexval :: "nat \<Rightarrow> nat option" where
  "hexval c =
     (if 0x30 \<le> c \<and> c \<le> 0x39 then Some (c - 0x30)
      else if 0x61 \<le> c \<and> c \<le> 0x66 then Some (c - 0x61 + 10)
      else if 0x41 \<le> c \<and> c \<le> 0x46 then Some (c - 0x41 + 10)
      else None)"

definition hex4 :: "nat \<Rightarrow> nat \<Rightarrow> nat \<Rightarrow> nat \<Rightarrow> nat option" where
  "hex4 a b c d =
     (case (hexval a, hexval b, hexval c, hexval d) of
        (Some w, Some x, Some y, Some z) \<Rightarrow> Some (((w * 16 + x) * 16 + y) * 16 + z)
      | _ \<Rightarrow> None)"

definition escape :: "nat \<Rightarrow> nat option" where
  "escape e =
     (if e = 0x22 \<or> e = 0x5C \<or> e = 0x2F then Some e
      else if e = 0x62 then Some 8
      else if e = 0x66 then Some 12
      else if e = 0x6E then Some 10
      else if e = 0x72 then Some 13
      else if e = 0x74 then Some 9
      else None)"

definition high_surrogate :: "nat \<Rightarrow> bool" where
  "high_surrogate u = (0xD800 \<le> u \<and> u \<le> 0xDBFF)"

definition low_surrogate :: "nat \<Rightarrow> bool" where
  "low_surrogate u = (0xDC00 \<le> u \<and> u \<le> 0xDFFF)"

definition join_surrogates :: "nat \<Rightarrow> nat \<Rightarrow> nat" where
  "join_surrogates u u2 = 0x10000 + ((u - 0xD800) * 1024 + (u2 - 0xDC00))"

definition push :: "nat \<Rightarrow> (pystr \<times> pystr) option \<Rightarrow> (pystr \<times> pystr) option" where
  "push c r = map_option (\<lambda>(s, rest). (c # s, rest)) r"

definition pair_up :: "nat \<Rightarrow> pystr \<Rightarrow> (nat \<times> pystr) option" where
  "pair_up u r1 =
     (case r1 of
        b # x # k1 # k2 # k3 # k4 # r2 \<Rightarrow>
          if high_surrogate u \<and> b = 0x5C \<and> x = 0x75 then
            (case hex4 k1 k2 k3 k4 of
               None \<Rightarrow> None
             | Some u2 \<Rightarrow>
                 if low_surrogate u2 then Some (join_surrogates u u2, r2) else Some (u, r1))
          else Some (u, r1)
      | _ \<Rightarrow> Some (u, r1))"

definition unescape :: "pystr \<Rightarrow> (nat \<times> pystr) option" where
  "unescape cs =
     (case cs of
        [] \<Rightarrow> None
      | e # r \<Rightarrow>
          if e = 0x75 then
            (case r of
               h1 # h2 # h3 # h4 # r1 \<Rightarrow>
                 (case hex4 h1 h2 h3 h4 of None \<Rightarrow> None | Some u \<Rightarrow> pair_up u r1)
             | _ \<Rightarrow> None)
          else map_option (\<lambda>x. (x, r)) (escape e))"

lemma pair_up_length: "pair_up u r1 = Some (v, r) \<Longrightarrow> length r \<le> length r1"
  by (auto simp: pair_up_def split: list.splits if_splits option.splits)

lemma unescape_length: "unescape cs = Some (v, r) \<Longrightarrow> length r < length cs"
  by (auto simp: unescape_def split: list.splits if_splits option.splits
      dest: pair_up_length)

function scanstring :: "pystr \<Rightarrow> (pystr \<times> pystr) option" where
  "scanstring [] = None"
| "scanstring (c # cs) =
     (if c = 0x22 then Some ([], cs)
      else if c = 0x5C then
        (case unescape cs of
           None \<Rightarrow> None
         | Some (u, r) \<Rightarrow> push u (scanstring r))
      else if c < 0x20 then None
      else push c (scanstring cs))"
  by pat_completeness auto
termination
  by (relation "measure length") (auto dest: unescape_length)

lemma scanstring_length: "scanstring cs = Some (s, r) \<Longrightarrow> length r < length cs"
proof (induction cs arbitrary: s r rule: scanstring.induct)
  case 1
  then show ?case by simp
next
  case (2 c cs)
  show ?case
  proof (cases "c = 0x22")
    case True
    with "2.prems" show ?thesis by simp
  next
    case quote: False
    show ?thesis
    proof (cases "c = 0x5C")
      case True
      with quote "2.prems" obtain u t s' where
        u: "unescape cs = Some (u, t)" and t: "scanstring t = Some (s', r)"
        by (auto simp: push_def split: option.splits)
      from "2.IH"(1) [OF quote True u refl t] unescape_length [OF u] show ?thesis by simp
    next
      case False
      with quote "2.prems" obtain s' where
        low: "\<not> c < 0x20" and t: "scanstring cs = Some (s', r)"
        by (auto simp: push_def split: if_splits)
      from "2.IH"(2) [OF quote False low t] show ?thesis by simp
    qed
  qed
qed

subsection \<open>Numbers\<close>

text \<open>
  A number is the longest text matching
  \<^verbatim>\<open>-?(0|[1-9][0-9]*)(\.[0-9]+)?([eE][-+]?[0-9]+)?\<close>. Without fraction and
  exponent it is an \<^verbatim>\<open>int\<close>, otherwise a \<^verbatim>\<open>float\<close>. A decimal \<open>m * 10 ^ e\<close> rounds
  to infinity exactly when it is at least \<open>2 ^ 1024 - 2 ^ 970\<close>, the midpoint between
  the largest double and \<open>2 ^ 1024\<close>.
\<close>

definition is_digit :: "nat \<Rightarrow> bool" where
  "is_digit c = (0x30 \<le> c \<and> c \<le> 0x39)"

definition digits_val :: "pystr \<Rightarrow> nat" where
  "digits_val ds = foldl (\<lambda>a d. 10 * a + (d - 0x30)) 0 ds"

definition overflows :: "nat \<Rightarrow> int \<Rightarrow> bool" where
  "overflows m e =
     (if 0 \<le> e then 2 ^ 1024 - 2 ^ 970 \<le> m * 10 ^ nat e
      else (2 ^ 1024 - 2 ^ 970) * 10 ^ nat (- e) \<le> m)"

definition float_of :: "bool \<Rightarrow> nat \<Rightarrow> int \<Rightarrow> pyfloat" where
  "float_of neg m e =
     (if overflows m e then (if neg then NegInf else PosInf)
      else Finite (if neg then - int m else int m) e)"

definition int_part :: "pystr \<Rightarrow> (pystr \<times> pystr) option" where
  "int_part s =
     (case s of
        [] \<Rightarrow> None
      | d # r \<Rightarrow>
          if d = 0x30 then Some ([d], r)
          else if 0x31 \<le> d \<and> d \<le> 0x39 then Some (takeWhile is_digit s, dropWhile is_digit s)
          else None)"

definition frac_part :: "pystr \<Rightarrow> pystr \<times> pystr" where
  "frac_part s =
     (case s of
        dot # d # r \<Rightarrow>
          if dot = 0x2E \<and> is_digit d
          then (takeWhile is_digit (d # r), dropWhile is_digit (d # r))
          else ([], s)
      | _ \<Rightarrow> ([], s))"

definition exp_sign :: "pystr \<Rightarrow> int \<times> pystr" where
  "exp_sign s =
     (case s of
        [] \<Rightarrow> (1, s)
      | x # r \<Rightarrow> if x = 0x2D then (- 1, r) else if x = 0x2B then (1, r) else (1, s))"

definition exp_part :: "pystr \<Rightarrow> int option \<times> pystr" where
  "exp_part s =
     (case s of
        [] \<Rightarrow> (None, s)
      | x # r \<Rightarrow>
          if x = 0x65 \<or> x = 0x45 then
            (case exp_sign r of
               (sg, r1) \<Rightarrow>
                 if takeWhile is_digit r1 = [] then (None, s)
                 else (Some (sg * int (digits_val (takeWhile is_digit r1))),
                       dropWhile is_digit r1))
          else (None, s))"

definition minus_sign :: "pystr \<Rightarrow> bool \<times> pystr" where
  "minus_sign s =
     (case s of [] \<Rightarrow> (False, s) | c # r \<Rightarrow> if c = 0x2D then (True, r) else (False, s))"

definition match_number :: "pystr \<Rightarrow> (json \<times> pystr) option" where
  "match_number s =
     (case minus_sign s of
        (neg, s1) \<Rightarrow>
          (case int_part s1 of
             None \<Rightarrow> None
           | Some (ip, s2) \<Rightarrow>
               (case frac_part s2 of
                  (fp, s3) \<Rightarrow>
                    (case exp_part s3 of
                       (ex, s4) \<Rightarrow>
                         if fp = [] \<and> ex = None
                         then Some (JInt (if neg then - int (digits_val ip)
                                          else int (digits_val ip)), s4)
                         else Some (JFloat (float_of neg (digits_val (ip @ fp))
                                      ((case ex of None \<Rightarrow> 0 | Some x \<Rightarrow> x)
                                       - int (length fp))), s4)))))"

subsection \<open>Tokens\<close>

text \<open>
  Between the tokens \<^verbatim>\<open>json\<close> skips space, tab, line feed and carriage return.
  Besides the three JSON constants it reads \<^verbatim>\<open>NaN\<close>, \<^verbatim>\<open>Infinity\<close> and
  \<^verbatim>\<open>-Infinity\<close>.
\<close>

datatype token =
    LBrace | RBrace | LBrack | RBrack | Comma | Colon
  | Str pystr
  | Atom json

definition json_constant :: "pystr \<Rightarrow> (json \<times> pystr) option" where
  "json_constant s =
     (if prefix (py ''null'') s then Some (JNull, drop 4 s)
      else if prefix (py ''true'') s then Some (JBool True, drop 4 s)
      else if prefix (py ''false'') s then Some (JBool False, drop 5 s)
      else if prefix (py ''NaN'') s then Some (JFloat NaN, drop 3 s)
      else if prefix (py ''Infinity'') s then Some (JFloat PosInf, drop 8 s)
      else if prefix (py ''-Infinity'') s then Some (JFloat NegInf, drop 9 s)
      else None)"

definition scalar :: "pystr \<Rightarrow> (token \<times> pystr) option" where
  "scalar s =
     (case s of
        [] \<Rightarrow> None
      | c # cs \<Rightarrow>
          if c = 0x22 then map_option (\<lambda>(x, r). (Str x, r)) (scanstring cs)
          else (case json_constant s of
                  Some (v, r) \<Rightarrow> Some (Atom v, r)
                | None \<Rightarrow> map_option (\<lambda>(v, r). (Atom v, r)) (match_number s)))"

lemma json_constant_length: "json_constant s = Some (v, r) \<Longrightarrow> length r < length s"
  by (auto simp: json_constant_def py_def split: if_splits elim!: prefixE)

lemma int_part_length: "int_part s = Some (ip, r) \<Longrightarrow> length r < length s"
  by (auto simp: int_part_def is_digit_def length_dropWhile_le less_Suc_eq_le
      split: list.splits if_splits)

lemma frac_part_length: "frac_part s = (fp, r) \<Longrightarrow> length r \<le> length s"
  by (auto simp: frac_part_def length_dropWhile_le le_SucI split: list.splits if_splits)

lemma exp_sign_length: "exp_sign s = (sg, r) \<Longrightarrow> length r \<le> length s"
  by (auto simp: exp_sign_def split: list.splits if_splits)

lemma exp_part_length: "exp_part s = (ex, r) \<Longrightarrow> length r \<le> length s"
proof (cases s)
  case Nil
  then show "exp_part s = (ex, r) \<Longrightarrow> length r \<le> length s"
    by (simp add: exp_part_def)
next
  case (Cons x t)
  assume a: "exp_part s = (ex, r)"
  obtain sg r1 where sg: "exp_sign t = (sg, r1)" by (cases "exp_sign t")
  have "length (dropWhile is_digit r1) \<le> length r1" by (rule length_dropWhile_le)
  with exp_sign_length [OF sg] have "length (dropWhile is_digit r1) \<le> length s"
    using Cons by simp
  with a Cons sg show "length r \<le> length s"
    by (auto simp: exp_part_def split: if_splits)
qed

lemma minus_sign_length: "minus_sign s = (neg, r) \<Longrightarrow> length r \<le> length s"
  by (auto simp: minus_sign_def split: list.splits if_splits)

lemma match_number_length: "match_number s = Some (v, r) \<Longrightarrow> length r < length s"
proof -
  assume a: "match_number s = Some (v, r)"
  obtain neg s1 where m: "minus_sign s = (neg, s1)" by (cases "minus_sign s")
  from a m obtain ip s2 where i: "int_part s1 = Some (ip, s2)"
    by (auto simp: match_number_def split: option.splits)
  obtain fp s3 where f: "frac_part s2 = (fp, s3)" by (cases "frac_part s2")
  obtain ex s4 where e: "exp_part s3 = (ex, s4)" by (cases "exp_part s3")
  from a m i f e have "r = s4"
    by (auto simp: match_number_def split: if_splits)
  with minus_sign_length [OF m] int_part_length [OF i] frac_part_length [OF f]
    exp_part_length [OF e]
  show "length r < length s" by simp
qed

lemma scalar_length: "scalar (c # cs) = Some (t, r) \<Longrightarrow> length r \<le> length cs"
  by (auto simp: scalar_def split: if_splits option.splits
      dest!: scanstring_length json_constant_length match_number_length)

definition punctuation :: "nat \<Rightarrow> token option" where
  "punctuation c =
     (if c = 0x7B then Some LBrace
      else if c = 0x7D then Some RBrace
      else if c = 0x5B then Some LBrack
      else if c = 0x5D then Some RBrack
      else if c = 0x2C then Some Comma
      else if c = 0x3A then Some Colon
      else None)"

definition json_space :: "nat \<Rightarrow> bool" where
  "json_space c = (c = 0x20 \<or> c = 9 \<or> c = 10 \<or> c = 13)"

function tokenize :: "pystr \<Rightarrow> token list option" where
  "tokenize [] = Some []"
| "tokenize (c # cs) =
     (if json_space c then tokenize cs
      else (case punctuation c of
              Some t \<Rightarrow> map_option (Cons t) (tokenize cs)
            | None \<Rightarrow>
                (case scalar (c # cs) of
                   None \<Rightarrow> None
                 | Some (t, r) \<Rightarrow> map_option (Cons t) (tokenize r))))"
  by pat_completeness auto
termination
  by (relation "measure length") (auto dest: scalar_length)

subsection \<open>Values\<close>

text \<open>
  The grammar over the tokens, run with an explicit stack of the containers that are
  still open. A frame holds what its container has collected so far; the frame of an
  object also holds the key whose value is being read. \<open>expect\<close> says what may come
  next: \<open>ValueOrClose\<close> is the position just after \<^verbatim>\<open>[\<close>, \<open>KeyOrClose\<close> the one just
  after \<^verbatim>\<open>{\<close>, \<open>Key\<close> the one after a comma in an object (so a comma before the
  closing bracket or brace is refused).
\<close>

datatype frame = ArrF "json list" | ObjF "(pystr \<times> json) list" "pystr option"

datatype expect = Value | ValueOrClose | KeyOrClose | Key | ColonNext | CommaOrClose

datatype pstate = Open expect "frame list" | Done json | Fail

fun deliver :: "json \<Rightarrow> frame list \<Rightarrow> pstate" where
  "deliver v [] = Done v"
| "deliver v (ArrF vs # st) = Open CommaOrClose (ArrF (vs @ [v]) # st)"
| "deliver v (ObjF kvs (Some k) # st) = Open CommaOrClose (ObjF (dict_set k v kvs) None # st)"
| "deliver v (ObjF kvs None # st) = Fail"

fun begin_value :: "frame list \<Rightarrow> token \<Rightarrow> pstate" where
  "begin_value st (Atom v) = deliver v st"
| "begin_value st (Str x) = deliver (JStr x) st"
| "begin_value st LBrack = Open ValueOrClose (ArrF [] # st)"
| "begin_value st LBrace = Open KeyOrClose (ObjF [] None # st)"
| "begin_value st _ = Fail"

fun step :: "expect \<Rightarrow> frame list \<Rightarrow> token \<Rightarrow> pstate" where
  "step Value st t = begin_value st t"
| "step ValueOrClose (ArrF vs # st) RBrack = deliver (JArr vs) st"
| "step ValueOrClose st t = begin_value st t"
| "step KeyOrClose (ObjF kvs k # st) RBrace = deliver (JObj kvs) st"
| "step KeyOrClose (ObjF kvs k # st) (Str x) = Open ColonNext (ObjF kvs (Some x) # st)"
| "step Key (ObjF kvs k # st) (Str x) = Open ColonNext (ObjF kvs (Some x) # st)"
| "step ColonNext st Colon = Open Value st"
| "step CommaOrClose (ArrF vs # st) Comma = Open Value (ArrF vs # st)"
| "step CommaOrClose (ArrF vs # st) RBrack = deliver (JArr vs) st"
| "step CommaOrClose (ObjF kvs k # st) Comma = Open Key (ObjF kvs k # st)"
| "step CommaOrClose (ObjF kvs k # st) RBrace = deliver (JObj kvs) st"
| "step _ _ _ = Fail"

fun run :: "pstate \<Rightarrow> token list \<Rightarrow> pstate" where
  "run s [] = s"
| "run (Open e st) (t # ts) = run (step e st t) ts"
| "run (Done v) (t # ts) = Fail"
| "run Fail (t # ts) = Fail"

text \<open>
  \<^verbatim>\<open>json.loads(s)\<close> on a \<^verbatim>\<open>str\<close>: a leading U+FEFF is refused, then one value is
  read, with only white space allowed after it. Every failure is a
  \<^verbatim>\<open>JSONDecodeError\<close>.
\<close>

definition json_loads :: "pystr \<Rightarrow> exc + json" where
  "json_loads s =
     (if prefix [0xFEFF] s then Inl JSONDecodeError
      else (case tokenize s of
              None \<Rightarrow> Inl JSONDecodeError
            | Some ts \<Rightarrow>
                (case run (Open Value []) ts of
                   Done v \<Rightarrow> Inr v
                 | _ \<Rightarrow> Inl JSONDecodeError)))"

section \<open>\<^verbatim>\<open>JSONResponse\<close>\<close>

text \<open>
  \<^verbatim>\<open>JSONResponse(content=v)\<close> renders its body in the constructor, as
  \<^verbatim>\<open>json.dumps(v, ensure_ascii=False, allow_nan=False, ...).encode("utf-8")\<close>. The
  first call raises \<^verbatim>\<open>ValueError\<close> on a non-finite float, the second raises
  \<^verbatim>\<open>UnicodeEncodeError\<close> on a surrogate code point in a string or a key. Otherwise
  the response has status 200 and the value as its body.
\<close>

definition surrogate :: "nat \<Rightarrow> bool" where
  "surrogate u = (0xD800 \<le> u \<and> u \<le> 0xDFFF)"

primrec nonfinite :: "json \<Rightarrow> bool" where
  "nonfinite JNull = False"
| "nonfinite (JBool b) = False"
| "nonfinite (JInt i) = False"
| "nonfinite (JFloat f) = (case f of Finite m e \<Rightarrow> False | _ \<Rightarrow> True)"
| "nonfinite (JStr x) = False"
| "nonfinite (JArr vs) = list_ex id (map nonfinite vs)"
| "nonfinite (JObj kvs) = list_ex snd (map (map_prod id nonfinite) kvs)"

primrec has_surrogate :: "json \<Rightarrow> bool" where
  "has_surrogate JNull = False"
| "has_surrogate (JBool b) = False"
| "has_surrogate (JInt i) = False"
| "has_surrogate (JFloat f) = False"
| "has_surrogate (JStr x) = list_ex surrogate x"
| "has_surrogate (JArr vs) = list_ex id (map has_surrogate vs)"
| "has_surrogate (JObj kvs) =
     list_ex (\<lambda>kb. list_ex surrogate (fst kb) \<or> snd kb) (map (map_prod id has_surrogate) kvs)"

definition JSONResponse :: "json \<Rightarrow> exc + json" where
  "JSONResponse v =
     (if nonfinite v then Inl ValueError
      else if has_surrogate v then Inl UnicodeEncodeError
      else Inr v)"

section \<open>The request handler\<close>

text \<open>
  The handler's collaborators are parameters: \<open>str\<close> is Python's \<^verbatim>\<open>str()\<close> on an
  exception (its text is the library's), and the module-level \<^verbatim>\<open>model\<close> is
  \<open>None\<close> or a client, a function from the prompt to the reply text
  (\<^verbatim>\<open>model.generate_content(prompt)\<close> followed by \<^verbatim>\<open>response.text\<close>) or to the
  exception that either of the two raises. What the handler does besides answering
  is recorded as a list of events, in order. The answer is the returned JSON body
  (HTTP 200) or the \<^verbatim>\<open>HTTPException\<close> that leaves the handler, which the framework
  turns into a response with that status and that detail.
\<close>

type_synonym client = "pystr \<Rightarrow> exc + pystr"

datatype event = FileRead | ModelCall pystr | Print pystr

datatype outcome = Returned json | Raised nat pystr

fun status :: "outcome \<Rightarrow> nat" where
  "status (Returned v) = 200"
| "status (Raised code detail) = code"

text \<open>Lines 15 to 25: the client exists only if the credential is set and not empty.\<close>

definition startup :: "pystr option \<Rightarrow> client \<Rightarrow> event list \<times> client option" where
  "startup GEMINI_API_KEY gemini =
     (case GEMINI_API_KEY of
        None \<Rightarrow>
          ([Print (py ''FATAL ERROR: GEMINI_API_KEY environment variable not set or is empty.'')],
           None)
      | Some k \<Rightarrow>
          if k = [] then
            ([Print (py ''FATAL ERROR: GEMINI_API_KEY environment variable not set or is empty.'')],
             None)
          else ([], Some gemini))"

text \<open>Line 121.\<close>

definition cleaned_response_text :: "pystr \<Rightarrow> pystr" where
  "cleaned_response_text text =
     strip (replace (py ''```'') [] (replace (py ''```json'') [] (strip text)))"

text \<open>
  The bare fence literal, and the number of backticks a text starts with, which is
  what the scan of \<open>replace\<close> for the bare fence depends on.
\<close>

definition fence :: pystr where
  "fence = [0x60, 0x60, 0x60]"

definition lead :: "pystr \<Rightarrow> nat" where
  "lead s = length (takeWhile (\<lambda>c. c = 0x60) s)"

text \<open>The body of the \<^verbatim>\<open>try\<close> block, lines 107 to 126: the events and the value or
  the exception it ends with.\<close>

definition try_block :: "client \<Rightarrow> upload \<Rightarrow> event list \<times> (exc + json)" where
  "try_block model file =
     (case utf8_decode (content file) of
        None \<Rightarrow> ([FileRead], Inl UnicodeDecodeError)
      | Some code_content \<Rightarrow>
          if strip code_content = []
          then ([FileRead], Inl (HTTPException 400 (py ''The uploaded file is empty.'')))
          else
            (let prompt = create_review_prompt code_content (filename file) in
             case model prompt of
               Inl e \<Rightarrow> ([FileRead, ModelCall prompt], Inl e)
             | Inr text \<Rightarrow>
                 ([FileRead, ModelCall prompt],
                  (case json_loads (cleaned_response_text text) of
                     Inl e \<Rightarrow> Inl e
                   | Inr review_data \<Rightarrow> JSONResponse review_data))))"

definition unexpected :: "pystr \<Rightarrow> pystr" where
  "unexpected msg = py ''An unexpected error occurred: '' @ msg"

definition review_code_endpoint ::
  "(exc \<Rightarrow> pystr) \<Rightarrow> client option \<Rightarrow> upload \<Rightarrow> event list \<times> outcome" where
  "review_code_endpoint str model file =
     (case model of
        None \<Rightarrow>
          ([], Raised 503
             (py ''LLM service is not configured. The server is missing the GEMINI_API_KEY.''))
      | Some m \<Rightarrow>
          (case try_block m file of
             (evs, Inr body) \<Rightarrow> (evs, Returned body)
           | (evs, Inl JSONDecodeError) \<Rightarrow>
               (evs, Raised 500
                  (py ''Failed to parse the AI model's response. The model returned an invalid format.''))
           | (evs, Inl e) \<Rightarrow>
               (evs @ [Print (unexpected (str e))], Raised 500 (unexpected (str e)))))"

section \<open>Sample inputs\<close>

text \<open>
  Concrete collaborators and uploads on which the theorems below are exercised: a
  \<^verbatim>\<open>str()\<close> that shows the detail or the message an exception carries, a client that
  answers every prompt with the same reply, an upload holding a space and a line
  feed, and an upload holding the letter \<open>x\<close>.
\<close>

definition sample_str :: "exc \<Rightarrow> pystr" where
  "sample_str e =
     (case e of HTTPException code detail \<Rightarrow> detail | OtherException msg \<Rightarrow> msg | _ \<Rightarrow> [])"

definition replying :: "pystr \<Rightarrow> client" where
  "replying reply prompt = Inr reply"

definition blank_upload :: upload where
  "blank_upload = \<lparr>filename = py ''a.py'', content = [0x20, 0x0A]\<rparr>"

definition code_upload :: upload where
  "code_upload = \<lparr>filename = py ''a.py'', content = [0x78]\<rparr>"

section \<open>The prompt builder: properties\<close>

lemma sublist_skip: "sublist xs ys \<Longrightarrow> sublist xs (ps @ ys)"
  unfolding sublist_def by (metis append.assoc)

lemma sublist_keep: "sublist xs ys \<Longrightarrow> sublist xs (ys @ ss)"
  unfolding sublist_def by (metis append.assoc)

lemma sublist_py: "sublist xs ys \<Longrightarrow> sublist (py xs) (py ys)"
  unfolding sublist_def py_def by (metis map_append)

lemma Readability_in_instructions: "sublist ''Readability'' prompt_instructions"
  unfolding prompt_instructions_def
  by (rule sublist_skip, rule sublist_skip, rule sublist_skip, rule sublist_skip,
      rule sublist_keep) (simp add: sublist_Cons_right)

lemma Modularity_Structure_in_instructions:
  "sublist ''Modularity_Structure'' prompt_instructions"
  unfolding prompt_instructions_def
  by (rule sublist_skip, rule sublist_skip, rule sublist_skip, rule sublist_skip,
      rule sublist_skip, rule sublist_keep) (simp add: sublist_Cons_right)

lemma Potential_Bugs_in_instructions: "sublist ''Potential_Bugs'' prompt_instructions"
  unfolding prompt_instructions_def
  by (rule sublist_skip, rule sublist_skip, rule sublist_skip, rule sublist_skip,
      rule sublist_skip, rule sublist_skip, rule sublist_keep)
     (simp add: sublist_Cons_right)

lemma Best_Practices_in_instructions: "sublist ''Best_Practices'' prompt_instructions"
  unfolding prompt_instructions_def
  by (rule sublist_skip, rule sublist_skip, rule sublist_skip, rule sublist_skip,
      rule sublist_skip, rule sublist_skip, rule sublist_skip, rule sublist_keep)
     (simp add: sublist_Cons_right)

lemma Security_in_instructions: "sublist ''Security'' prompt_instructions"
  unfolding prompt_instructions_def
  by (rule sublist_skip, rule sublist_skip, rule sublist_skip, rule sublist_skip,
      rule sublist_skip, rule sublist_skip, rule sublist_skip, rule sublist_skip,
      rule sublist_keep) (simp add: sublist_Cons_right)

lemma instructions_in_prompt:
  "sublist name prompt_instructions \<Longrightarrow>
   sublist (py name) (create_review_prompt code fname)"
  unfolding create_review_prompt_def
  by (intro sublist_skip [of _ _ "py prompt_head"] sublist_skip [of _ _ fname]
      sublist_keep sublist_py)


text \<open>
  C9. For every code and file name the prompt contains the file name and the code
  as contiguous substrings, and the five criterion names Readability,
  Modularity_Structure, Potential_Bugs, Best_Practices and Security.
\<close>

theorem create_review_prompt_contains:
  "sublist fname (create_review_prompt code fname)
   \<and> sublist code (create_review_prompt code fname)
   \<and> sublist (py ''Readability'') (create_review_prompt code fname)
   \<and> sublist (py ''Modularity_Structure'') (create_review_prompt code fname)
   \<and> sublist (py ''Potential_Bugs'') (create_review_prompt code fname)
   \<and> sublist (py ''Best_Practices'') (create_review_prompt code fname)
   \<and> sublist (py ''Security'') (create_review_prompt code fname)"
proof (intro conjI)
  show "sublist fname (create_review_prompt code fname)"
    unfolding create_review_prompt_def by (rule sublist_appendI)
  show "sublist code (create_review_prompt code fname)"
    unfolding create_review_prompt_def
    using sublist_appendI [of code "py prompt_head @ fname @ py prompt_instructions"
        "py prompt_tail"]
    by simp
qed (rule instructions_in_prompt, rule Readability_in_instructions
      Modularity_Structure_in_instructions Potential_Bugs_in_instructions
      Best_Practices_in_instructions Security_in_instructions)+

section \<open>The request handler: properties\<close>

text \<open>
  C3. When the credential is missing or empty at startup the module-level model is
  \<open>None\<close>, and with the model \<open>None\<close> the handler raises the 503
  \<^verbatim>\<open>HTTPException\<close> for every upload with no event at all: the file is neither read
  nor decoded and the model is not called.
\<close>

theorem unconfigured_is_503:
  "snd (startup None gemini) = None
   \<and> snd (startup (Some []) gemini) = None
   \<and> review_code_endpoint str None file
     = ([], Raised 503
          (py ''LLM service is not configured. The server is missing the GEMINI_API_KEY.''))
   \<and> status (snd (review_code_endpoint str None file)) = 503
   \<and> fst (review_code_endpoint str None file) = []"
  by (simp add: startup_def review_code_endpoint_def)

subsection \<open>The steps of the handler\<close>

lemma decode_blank_upload: "utf8_decode (content blank_upload) = Some [0x20, 0x0A]"
  by (simp add: blank_upload_def)

lemma strip_blank: "strip [0x20, 0x0A] = []"
  by (simp add: strip_def lstrip_def rstrip_def isspace_def)

lemma decode_code_upload: "utf8_decode (content code_upload) = Some [0x78]"
  by (simp add: code_upload_def)

lemma strip_x: "strip [0x78] = [0x78]"
  by (simp add: strip_def lstrip_def rstrip_def isspace_def)

lemma try_block_blank:
  "utf8_decode (content file) = Some code \<Longrightarrow> strip code = [] \<Longrightarrow>
   try_block m file = ([FileRead], Inl (HTTPException 400 (py ''The uploaded file is empty.'')))"
  by (simp add: try_block_def)

lemma try_block_reply:
  "utf8_decode (content file) = Some code \<Longrightarrow> strip code \<noteq> [] \<Longrightarrow>
   m (create_review_prompt code (filename file)) = Inr reply \<Longrightarrow>
   try_block m file =
     ([FileRead, ModelCall (create_review_prompt code (filename file))],
      (case json_loads (cleaned_response_text reply) of
         Inl e \<Rightarrow> Inl e
       | Inr review_data \<Rightarrow> JSONResponse review_data))"
  by (simp add: try_block_def Let_def)

lemma endpoint_catch_all:
  "try_block m file = (evs, Inl e) \<Longrightarrow> e \<noteq> JSONDecodeError \<Longrightarrow>
   review_code_endpoint str (Some m) file
     = (evs @ [Print (unexpected (str e))], Raised 500 (unexpected (str e)))"
  by (cases e) (simp_all add: review_code_endpoint_def)

lemma endpoint_decode_error:
  "try_block m file = (evs, Inl JSONDecodeError) \<Longrightarrow>
   review_code_endpoint str (Some m) file
     = (evs, Raised 500
          (py ''Failed to parse the AI model's response. The model returned an invalid format.''))"
  by (simp add: review_code_endpoint_def)

lemma endpoint_returns:
  "try_block m file = (evs, Inr body) \<Longrightarrow>
   review_code_endpoint str (Some m) file = (evs, Returned body)"
  by (simp add: review_code_endpoint_def)


lemma replying_reply: "replying reply prompt = Inr reply"
  by (simp add: replying_def)

subsection \<open>Evaluation on the sample replies\<close>

lemmas eval_strings = py_def strip_def lstrip_def rstrip_def isspace_def replace_def
  cleaned_response_text_def
lemmas eval_json = json_loads_def scalar_def json_constant_def match_number_def
  minus_sign_def int_part_def frac_part_def exp_part_def exp_sign_def punctuation_def
  json_space_def is_digit_def digits_val_def float_of_def overflows_def push_def
  unescape_def pair_up_def hex4_def hexval_def escape_def high_surrogate_def
  low_surrogate_def join_surrogates_def



lemma clean_fenced: \<open>cleaned_response_text (py ''```json{"a":1}```'') = py ''{"a":1}''\<close>
  by (simp add: eval_strings)

lemma loads_a1: \<open>json_loads (py ''{"a":1}'') = Inr (JObj [(py ''a'', JInt 1)])\<close>
  by (simp add: py_def eval_json)

lemma clean_huge: "cleaned_response_text (py ''1e999'') = py ''1e999''"
  by (simp add: eval_strings)

lemma loads_huge: "json_loads (py ''1e999'') = Inr (JFloat PosInf)"
  by (simp add: py_def eval_json)

lemma loads_lone: \<open>json_loads (py ''"'' @ [0x5C] @ py ''ud800"'') = Inr (JStr [0xD800])\<close>
  by (simp add: py_def eval_json)

subsection \<open>Blank uploads\<close>

text \<open>
  C1 says that a blank upload is answered with status 400. The handler raises the
  400 \<^verbatim>\<open>HTTPException\<close> inside its own \<^verbatim>\<open>try\<close> block; \<^verbatim>\<open>HTTPException\<close> is an
  \<^verbatim>\<open>Exception\<close>, so the clause \<^verbatim>\<open>except Exception\<close> of line 134 catches it, prints
  it and raises a 500 in its place. On the upload holding a space and a line feed,
  with any client configured, the answer has status 500.
\<close>

theorem blank_upload_answers_500:
  "review_code_endpoint str (Some m) blank_upload
     = ([FileRead,
         Print (unexpected (str (HTTPException 400 (py ''The uploaded file is empty.''))))],
        Raised 500 (unexpected (str (HTTPException 400 (py ''The uploaded file is empty.'')))))
   \<and> status (snd (review_code_endpoint str (Some m) blank_upload)) = 500"
proof -
  have "try_block m blank_upload
      = ([FileRead], Inl (HTTPException 400 (py ''The uploaded file is empty.'')))"
    by (rule try_block_blank [OF decode_blank_upload strip_blank])
  from endpoint_catch_all [OF this] show ?thesis by simp
qed

text \<open>
  C2. With a client configured every answer has status 200 or 500. An
  \<^verbatim>\<open>HTTPException\<close> that ends the \<^verbatim>\<open>try\<close> block is printed and replaced by a 500
  whose detail is \<^verbatim>\<open>An unexpected error occurred: \<close> followed by its text; this is
  what happens to the 400 of a blank upload.
\<close>

theorem configured_status_200_or_500:
  "(status (snd (review_code_endpoint str (Some m) file)) = 200
      \<or> status (snd (review_code_endpoint str (Some m) file)) = 500)
   \<and> (\<forall>evs code detail.
         try_block m file = (evs, Inl (HTTPException code detail)) \<longrightarrow>
         review_code_endpoint str (Some m) file
           = (evs @ [Print (unexpected (str (HTTPException code detail)))],
              Raised 500 (unexpected (str (HTTPException code detail)))))
   \<and> (\<forall>code_content.
         utf8_decode (content file) = Some code_content \<and> strip code_content = [] \<longrightarrow>
         snd (review_code_endpoint str (Some m) file)
           = Raised 500
               (unexpected (str (HTTPException 400 (py ''The uploaded file is empty.'')))))"
proof (intro conjI allI impI)
  obtain evs r where t: "try_block m file = (evs, r)" by (cases "try_block m file")
  show "status (snd (review_code_endpoint str (Some m) file)) = 200
      \<or> status (snd (review_code_endpoint str (Some m) file)) = 500"
  proof (cases r)
    case (Inr body)
    with t endpoint_returns show ?thesis by simp
  next
    case (Inl e)
    show ?thesis
    proof (cases "e = JSONDecodeError")
      case True
      with t Inl endpoint_decode_error show ?thesis by simp
    next
      case False
      with t Inl endpoint_catch_all show ?thesis by simp
    qed
  qed
next
  fix evs code detail
  assume "try_block m file = (evs, Inl (HTTPException code detail))"
  from endpoint_catch_all [OF this]
  show "review_code_endpoint str (Some m) file
      = (evs @ [Print (unexpected (str (HTTPException code detail)))],
         Raised 500 (unexpected (str (HTTPException code detail))))"
    by simp
next
  fix code_content
  assume "utf8_decode (content file) = Some code_content \<and> strip code_content = []"
  then have "try_block m file
      = ([FileRead], Inl (HTTPException 400 (py ''The uploaded file is empty.'')))"
    by (simp add: try_block_blank)
  from endpoint_catch_all [OF this]
  show "snd (review_code_endpoint str (Some m) file)
      = Raised 500 (unexpected (str (HTTPException 400 (py ''The uploaded file is empty.''))))"
    by simp
qed

text \<open>The witness of C2: the blank upload.\<close>

theorem configured_status_200_or_500_witness:
  "utf8_decode (content blank_upload) = Some [0x20, 0x0A] \<and> strip [0x20, 0x0A] = []
   \<and> try_block (replying []) blank_upload
     = ([FileRead], Inl (HTTPException 400 (py ''The uploaded file is empty.'')))
   \<and> review_code_endpoint sample_str (Some (replying [])) blank_upload
     = ([FileRead, Print (unexpected (py ''The uploaded file is empty.''))],
        Raised 500 (unexpected (py ''The uploaded file is empty.'')))
   \<and> status (snd (review_code_endpoint sample_str (Some (replying [])) blank_upload)) = 500"
proof -
  have t: "try_block (replying []) blank_upload
      = ([FileRead], Inl (HTTPException 400 (py ''The uploaded file is empty.'')))"
    by (rule try_block_blank [OF decode_blank_upload strip_blank])
  from configured_status_200_or_500 [of sample_str "replying []" blank_upload] t
  have "review_code_endpoint sample_str (Some (replying [])) blank_upload
      = ([FileRead] @
         [Print (unexpected
            (sample_str (HTTPException 400 (py ''The uploaded file is empty.''))))],
         Raised 500
           (unexpected (sample_str (HTTPException 400 (py ''The uploaded file is empty.'')))))"
    by blast
  then show ?thesis
    using decode_blank_upload strip_blank t by (simp add: sample_str_def)
qed

text \<open>
  C5. When the upload decodes to a text that is empty after trimming, the events of
  the handler are the read and the print of the catch-all clause: the model is not
  called.
\<close>

theorem blank_never_calls_model:
  assumes "utf8_decode (content file) = Some code_content"
    and "strip code_content = []"
  shows "fst (review_code_endpoint str (Some m) file)
      = [FileRead,
         Print (unexpected (str (HTTPException 400 (py ''The uploaded file is empty.''))))]
    \<and> (\<forall>prompt. ModelCall prompt \<notin> set (fst (review_code_endpoint str (Some m) file)))"
proof -
  from endpoint_catch_all [OF try_block_blank [OF assms], of str]
  show ?thesis by simp
qed

text \<open>The witness of C5: the blank upload.\<close>

theorem blank_never_calls_model_witness:
  "utf8_decode (content blank_upload) = Some [0x20, 0x0A] \<and> strip [0x20, 0x0A] = []
   \<and> ModelCall (create_review_prompt [0x20, 0x0A] (filename blank_upload))
       \<notin> set (fst (review_code_endpoint sample_str (Some (replying [])) blank_upload))"
  using blank_never_calls_model [OF decode_blank_upload strip_blank, of sample_str "replying []"]
    decode_blank_upload strip_blank
  by blast

subsection \<open>The reply of the model\<close>



text \<open>
  C6 as stated fails: the reply \<^verbatim>\<open>1e999\<close> is valid JSON and \<^verbatim>\<open>json.loads\<close> parses
  it, to the float infinity, which \<^verbatim>\<open>JSONResponse\<close> refuses to render; the
  \<^verbatim>\<open>ValueError\<close> is caught by the catch-all clause and the answer is a 500.
\<close>

theorem overflowing_reply_is_500:
  "json_loads (cleaned_response_text (py ''1e999'')) = Inr (JFloat PosInf)
   \<and> snd (review_code_endpoint sample_str (Some (replying (py ''1e999''))) code_upload)
     \<noteq> Returned (JFloat PosInf)
   \<and> status (snd (review_code_endpoint sample_str (Some (replying (py ''1e999''))) code_upload))
     = 500"
proof -
  have j: "json_loads (cleaned_response_text (py ''1e999'')) = Inr (JFloat PosInf)"
    by (simp only: clean_huge loads_huge)
  have s: "strip [0x78] \<noteq> []" by (simp add: strip_x)
  have r: "replying (py ''1e999'') (create_review_prompt [0x78] (filename code_upload))
      = Inr (py ''1e999'')"
    by (rule replying_reply)
  from try_block_reply [where m = "replying (py ''1e999'')", OF decode_code_upload s r] j
  have "try_block (replying (py ''1e999'')) code_upload
      = ([FileRead, ModelCall (create_review_prompt [0x78] (filename code_upload))],
         Inl ValueError)"
    by (simp add: JSONResponse_def)
  from endpoint_catch_all [OF this, of sample_str] j show ?thesis by simp
qed

text \<open>
  A lone surrogate escape is a second way to the same answer: \<^verbatim>\<open>json.loads\<close>
  accepts it, and the body cannot be encoded as UTF-8.
\<close>

lemma lone_surrogate_reply_is_500:
  \<open>status (snd (review_code_endpoint sample_str
       (Some (replying (py ''"'' @ [0x5C] @ py ''ud800"''))) code_upload)) = 500\<close>
proof -
  have c: \<open>cleaned_response_text (py ''"'' @ [0x5C] @ py ''ud800"'')
      = py ''"'' @ [0x5C] @ py ''ud800"''\<close>
    by (simp add: eval_strings)
  have s: "strip [0x78] \<noteq> []" by (simp add: strip_x)
  have r: \<open>replying (py ''"'' @ [0x5C] @ py ''ud800"'')
      (create_review_prompt [0x78] (filename code_upload))
      = Inr (py ''"'' @ [0x5C] @ py ''ud800"'')\<close>
    by (rule replying_reply)
  from try_block_reply [where m = \<open>replying (py ''"'' @ [0x5C] @ py ''ud800"'')\<close>,
      OF decode_code_upload s r]
  have \<open>try_block (replying (py ''"'' @ [0x5C] @ py ''ud800"'')) code_upload
      = ([FileRead, ModelCall (create_review_prompt [0x78] (filename code_upload))],
         Inl UnicodeEncodeError)\<close>
    by (simp only: c loads_lone) (simp add: JSONResponse_def surrogate_def)
  from endpoint_catch_all [OF this, of sample_str] show ?thesis by simp
qed

text \<open>
  C6, amended. When \<^verbatim>\<open>json.loads\<close> parses the cleaned reply to a value that holds
  no non-finite float and no surrogate code point, the handler returns exactly that
  value with status 200, whatever its shape.
\<close>

theorem parsed_reply_is_returned:
  assumes "utf8_decode (content file) = Some code_content"
    and "strip code_content \<noteq> []"
    and "m (create_review_prompt code_content (filename file)) = Inr reply"
    and "json_loads (cleaned_response_text reply) = Inr v"
    and "\<not> nonfinite v" and "\<not> has_surrogate v"
  shows "review_code_endpoint str (Some m) file
      = ([FileRead, ModelCall (create_review_prompt code_content (filename file))], Returned v)
    \<and> status (snd (review_code_endpoint str (Some m) file)) = 200"
proof -
  from try_block_reply [where m = m, OF assms(1-3)] assms(4-6)
  have "try_block m file
      = ([FileRead, ModelCall (create_review_prompt code_content (filename file))], Inr v)"
    by (simp add: JSONResponse_def)
  from endpoint_returns [OF this, of str] show ?thesis by simp
qed

text \<open>The witness of C6: a fenced reply that is not of the five-criterion shape.\<close>

theorem parsed_reply_is_returned_witness:
  \<open>utf8_decode (content code_upload) = Some [0x78] \<and> strip [0x78] \<noteq> []
   \<and> replying (py ''```json{"a":1}```'') (create_review_prompt [0x78] (filename code_upload))
     = Inr (py ''```json{"a":1}```'')
   \<and> json_loads (cleaned_response_text (py ''```json{"a":1}```''))
     = Inr (JObj [(py ''a'', JInt 1)])
   \<and> \<not> nonfinite (JObj [(py ''a'', JInt 1)]) \<and> \<not> has_surrogate (JObj [(py ''a'', JInt 1)])
   \<and> snd (review_code_endpoint sample_str (Some (replying (py ''```json{"a":1}```'')))
        code_upload)
     = Returned (JObj [(py ''a'', JInt 1)])\<close>
proof -
  have s: "strip [0x78] \<noteq> []" by (simp add: strip_x)
  have j: \<open>json_loads (cleaned_response_text (py ''```json{"a":1}```''))
      = Inr (JObj [(py ''a'', JInt 1)])\<close>
    by (simp only: clean_fenced loads_a1)
  have n: "\<not> nonfinite (JObj [(py ''a'', JInt 1)])" by simp
  have h: "\<not> has_surrogate (JObj [(py ''a'', JInt 1)])"
    by (simp add: py_def surrogate_def)
  have r: \<open>replying (py ''```json{"a":1}```'')
      (create_review_prompt [0x78] (filename code_upload)) = Inr (py ''```json{"a":1}```'')\<close>
    by (rule replying_reply)
  from parsed_reply_is_returned
    [where m = \<open>replying (py ''```json{"a":1}```'')\<close>, OF decode_code_upload s r j n h,
      of sample_str]
  have \<open>snd (review_code_endpoint sample_str (Some (replying (py ''```json{"a":1}```'')))
        code_upload)
     = Returned (JObj [(py ''a'', JInt 1)])\<close>
    by simp
  with decode_code_upload s r j n h show ?thesis by blast
qed

section \<open>Cleaning the reply: properties\<close>

lemma replace_from_absent: "\<not> sublist old s \<Longrightarrow> replace_from old new s = s"
proof (induction old new s rule: replace_from.induct)
  case (1 old new)
  then show ?case by simp
next
  case (2 old new c cs)
  from "2.prems" have np: "\<not> prefix old (c # cs)" and ns: "\<not> sublist old cs"
    by (auto simp: sublist_Cons_right)
  with "2.IH"(2) show ?case by simp
qed

lemma replace_absent: "\<not> sublist old s \<Longrightarrow> replace old new s = s"
  by (cases "old = []") (auto simp: replace_def replace_from_absent)

lemma sublist_strip: "sublist (strip s) s"
proof -
  have "sublist (rstrip (lstrip s)) (lstrip s)"
    unfolding rstrip_def by (simp add: sublist_rev_left)
  moreover have "sublist (lstrip s) s"
    unfolding lstrip_def by simp
  ultimately show ?thesis
    unfolding strip_def by (rule sublist_order.order_trans)
qed

lemma rstrip_prefix: "prefix (rstrip s) s"
proof -
  have "rev (takeWhile isspace (rev s) @ dropWhile isspace (rev s)) = s" by simp
  then have "rev (dropWhile isspace (rev s)) @ rev (takeWhile isspace (rev s)) = s"
    by (simp only: rev_append)
  then have "s = rstrip s @ rev (takeWhile isspace (rev s))"
    by (simp only: rstrip_def)
  then show ?thesis by (rule prefixI)
qed

lemma lstrip_rstrip_lstrip: "lstrip (rstrip (lstrip s)) = rstrip (lstrip s)"
proof (cases "rstrip (lstrip s) = []")
  case True
  then show ?thesis by (simp add: lstrip_def)
next
  case False
  from rstrip_prefix [of "lstrip s"] obtain w where w: "lstrip s = rstrip (lstrip s) @ w"
    by (auto elim: prefixE)
  with False have "hd (rstrip (lstrip s)) = hd (lstrip s)" and ne: "lstrip s \<noteq> []"
    by (metis hd_append2, metis append_is_Nil_conv)
  moreover from ne have "\<not> isspace (hd (lstrip s))"
    unfolding lstrip_def by (rule hd_dropWhile)
  ultimately have "\<not> isspace (hd (rstrip (lstrip s)))" by simp
  with False show ?thesis
    unfolding lstrip_def [of "rstrip (lstrip s)"] by (simp add: dropWhile_eq_self_iff)
qed

lemma rstrip_rstrip: "rstrip (rstrip s) = rstrip s"
  by (simp add: rstrip_def)

lemma strip_strip: "strip (strip s) = strip s"
  by (simp add: strip_def lstrip_rstrip_lstrip rstrip_rstrip)


lemma lead_Nil: "lead [] = 0"
  by (simp add: lead_def)

lemma lead_Cons: "lead (c # cs) = (if c = 0x60 then Suc (lead cs) else 0)"
  by (simp add: lead_def)

lemma fence_not_Nil: "fence \<noteq> []"
  by (simp add: fence_def)

lemma lead_fence_append: "lead (fence @ rest) = 3 + lead rest"
  by (simp add: fence_def lead_Cons)

lemma drop_fence_append: "drop (length fence) (fence @ rest) = rest"
  by simp

lemma prefix_fence_lead: "prefix fence s \<longleftrightarrow> 3 \<le> lead s"
proof (cases s)
  case Nil
  then show ?thesis by (simp add: lead_Nil fence_def)
next
  case s1: (Cons a t)
  show ?thesis
  proof (cases t)
    case Nil
    with s1 show ?thesis by (simp add: lead_Cons lead_Nil fence_def)
  next
    case s2: (Cons b u)
    show ?thesis
    proof (cases u)
      case Nil
      with s1 s2 show ?thesis by (simp add: lead_Cons lead_Nil fence_def)
    next
      case (Cons c v)
      with s1 s2 show ?thesis by (simp add: lead_Cons fence_def)
    qed
  qed
qed

lemma replace_from_hit:
  "old \<noteq> [] \<Longrightarrow> replace_from old [] (old @ rest) = replace_from old [] rest"
  by (cases old) simp_all

lemma replace_from_miss:
  "\<not> prefix old (c # cs) \<Longrightarrow> replace_from old new (c # cs) = c # replace_from old new cs"
  by simp

lemma lead_replace_from: "lead (replace_from fence [] s) = lead s mod 3"
proof (induction "length s" arbitrary: s rule: less_induct)
  case less
  show ?case
  proof (cases "prefix fence s")
    case True
    then obtain rest where r: "s = fence @ rest" by (rule prefixE)
    then have "length rest < length s" by (simp add: fence_def)
    from less.hyps [OF this] r show ?thesis
      by (simp add: replace_from_hit [OF fence_not_Nil] lead_fence_append)
  next
    case False
    then have small: "lead s < 3" by (simp add: prefix_fence_lead)
    show ?thesis
    proof (cases s)
      case Nil
      then show ?thesis by (simp add: lead_Nil)
    next
      case (Cons c cs)
      with False have step: "replace_from fence [] s = c # replace_from fence [] cs"
        by (simp add: replace_from_miss)
      from Cons have "length cs < length s" by simp
      from less.hyps [OF this] have "lead (replace_from fence [] cs) = lead cs mod 3" .
      with step small Cons show ?thesis by (auto simp: lead_Cons split: if_splits)
    qed
  qed
qed

lemma replace_from_no_fence: "\<not> sublist fence (replace_from fence [] s)"
proof (induction "length s" arbitrary: s rule: less_induct)
  case less
  show ?case
  proof (cases "prefix fence s")
    case True
    then obtain rest where r: "s = fence @ rest" by (rule prefixE)
    then have "length rest < length s" by (simp add: fence_def)
    from less.hyps [OF this] r show ?thesis
      by (simp add: replace_from_hit [OF fence_not_Nil])
  next
    case False
    then have small: "lead s < 3" by (simp add: prefix_fence_lead)
    show ?thesis
    proof (cases s)
      case Nil
      then show ?thesis by (simp add: fence_def)
    next
      case (Cons c cs)
      with False have step: "replace_from fence [] s = c # replace_from fence [] cs"
        by (simp add: replace_from_miss)
      from Cons have "length cs < length s" by simp
      from less.hyps [OF this] have ih: "\<not> sublist fence (replace_from fence [] cs)" .
      have "lead (c # replace_from fence [] cs) < 3"
        using small Cons lead_replace_from [of cs] by (auto simp: lead_Cons split: if_splits)
      then have "\<not> prefix fence (c # replace_from fence [] cs)"
        by (simp add: prefix_fence_lead)
      with ih step show ?thesis by (simp only: sublist_Cons_right) simp
    qed
  qed
qed

lemma py_fence: "py ''```'' = fence"
  by (simp add: py_def fence_def)

lemma py_fence_json: "py ''```json'' = fence @ py ''json''"
  by (simp add: py_def fence_def)

lemma fence_in_fence_json: "sublist (py ''```'') (py ''```json'')"
  unfolding py_fence_json py_fence by (rule sublist_append_rightI)

lemma cleaned_no_fence: "\<not> sublist (py ''```'') (cleaned_response_text text)"
proof
  assume "sublist (py ''```'') (cleaned_response_text text)"
  then have "sublist (py ''```'')
      (replace (py ''```'') [] (replace (py ''```json'') [] (strip text)))"
    unfolding cleaned_response_text_def
    using sublist_strip sublist_order.order_trans by blast
  then show False
    by (simp add: py_fence replace_def replace_from_no_fence fence_not_Nil)
qed

lemma cleaned_absent:
  assumes "\<not> sublist (py ''```json'') raw" and "\<not> sublist (py ''```'') raw"
  shows "cleaned_response_text raw = strip raw"
proof -
  from assms sublist_strip [of raw]
  have "\<not> sublist (py ''```json'') (strip raw)" and "\<not> sublist (py ''```'') (strip raw)"
    using sublist_order.order_trans by blast+
  then show ?thesis
    by (simp add: cleaned_response_text_def replace_absent strip_strip)
qed

lemma clean_padded: \<open>strip (py '' {"a":1} \<newline>'') = py ''{"a":1}''\<close>
  by (simp add: eval_strings)

lemma padded_no_fence:
  \<open>\<not> sublist (py ''```json'') (py '' {"a":1} \<newline>'')
   \<and> \<not> sublist (py ''```'') (py '' {"a":1} \<newline>'')\<close>
  by (simp add: py_def sublist_Cons_right)

lemma loads_fence_comment:
  \<open>json_loads (py ''{"comment":"```"}'') = Inr (JObj [(py ''comment'', JStr (py ''```''))])\<close>
  by (simp add: py_def eval_json)

lemma clean_fence_comment:
  \<open>cleaned_response_text (py ''{"comment":"```"}'') = py ''{"comment":""}''\<close>
  by (simp add: eval_strings)

lemma loads_empty_comment:
  \<open>json_loads (py ''{"comment":""}'') = Inr (JObj [(py ''comment'', JStr [])])\<close>
  by (simp add: py_def eval_json)

text \<open>
  C10. A reply that contains neither fence literal is cleaned to itself with the
  surrounding white space trimmed, and cleaning \<^verbatim>\<open>```json{"a":1}```\<close> gives
  \<^verbatim>\<open>{"a":1}\<close>.
\<close>

theorem cleaning_without_fences:
  \<open>(\<not> sublist (py ''```json'') raw \<and> \<not> sublist (py ''```'') raw
      \<longrightarrow> cleaned_response_text raw = strip raw)
   \<and> cleaned_response_text (py ''```json{"a":1}```'') = py ''{"a":1}''\<close>
  using cleaned_absent [of raw] clean_fenced by blast

text \<open>The witness of C10: a reply with white space around it and no fence.\<close>

theorem cleaning_without_fences_witness:
  \<open>\<not> sublist (py ''```json'') (py '' {"a":1} \<newline>'')
   \<and> \<not> sublist (py ''```'') (py '' {"a":1} \<newline>'')
   \<and> cleaned_response_text (py '' {"a":1} \<newline>'') = py ''{"a":1}''\<close>
proof -
  from cleaning_without_fences [of \<open>py '' {"a":1} \<newline>''\<close>] padded_no_fence
  have \<open>cleaned_response_text (py '' {"a":1} \<newline>'') = strip (py '' {"a":1} \<newline>'')\<close>
    by blast
  with padded_no_fence clean_padded show ?thesis by simp
qed

text \<open>
  C7. There is a reply that is valid JSON and whose parse is not what the handler
  returns: in \<^verbatim>\<open>{"comment":"```"}\<close> the fence inside the string is deleted before
  parsing, so the handler returns the object with an empty comment. In general the
  cleaned text never contains either fence literal, wherever it stood in the reply.
\<close>

theorem fence_inside_string_is_deleted:
  "(\<exists>reply v v'. json_loads reply = Inr v
      \<and> snd (review_code_endpoint str (Some (replying reply)) code_upload) = Returned v'
      \<and> v' \<noteq> v)
   \<and> (\<forall>text. \<not> sublist (py ''```'') (cleaned_response_text text)
        \<and> \<not> sublist (py ''```json'') (cleaned_response_text text))"
proof (intro conjI allI exI)
  show \<open>json_loads (py ''{"comment":"```"}'') = Inr (JObj [(py ''comment'', JStr (py ''```''))])\<close>
    by (rule loads_fence_comment)
  have s: "strip [0x78] \<noteq> []" by (simp add: strip_x)
  have r: \<open>replying (py ''{"comment":"```"}'')
      (create_review_prompt [0x78] (filename code_upload)) = Inr (py ''{"comment":"```"}'')\<close>
    by (rule replying_reply)
  have j: \<open>json_loads (cleaned_response_text (py ''{"comment":"```"}''))
      = Inr (JObj [(py ''comment'', JStr [])])\<close>
    by (simp only: clean_fence_comment loads_empty_comment)
  from try_block_reply [where m = \<open>replying (py ''{"comment":"```"}'')\<close>,
      OF decode_code_upload s r] j
  have \<open>try_block (replying (py ''{"comment":"```"}'')) code_upload
      = ([FileRead, ModelCall (create_review_prompt [0x78] (filename code_upload))],
         Inr (JObj [(py ''comment'', JStr [])]))\<close>
    by (simp add: JSONResponse_def py_def surrogate_def)
  from endpoint_returns [OF this, of str]
  show \<open>snd (review_code_endpoint str (Some (replying (py ''{"comment":"```"}''))) code_upload)
      = Returned (JObj [(py ''comment'', JStr [])])\<close>
    by simp
  show \<open>JObj [(py ''comment'', JStr [])] \<noteq> JObj [(py ''comment'', JStr (py ''```''))]\<close>
    by (simp add: py_def)
  show "\<not> sublist (py ''```'') (cleaned_response_text t)" for t
    by (rule cleaned_no_fence)
  then show "\<not> sublist (py ''```json'') (cleaned_response_text t)" for t
    using fence_in_fence_json sublist_order.order_trans by blast
qed

end
